theory Spec2Isabelle
  imports Main "HOL-Library.Sublist"
begin

section \<open>The access-gated mailbox bot of \<^verbatim>\<open>src/app.py\<close>\<close>

text \<open>
  The handlers of \<^verbatim>\<open>app.py\<close> are embedded as functions from the database and the
  answers of the outside world to a result: the exception that escaped the handler (if
  any), the database as it is left, and the chronological trace of every call the
  handler made to the chat interface, the membership oracle, the mail provider and the
  database session.

  Conventions of the embedding.
  \<^item> The two tables are lists of rows in insertion order; \<^verbatim>\<open>first()\<close> returns the
    earliest matching row.
  \<^item> In the file, the \<^verbatim>\<open>reply_text(\<close> of the join prompt in \<^verbatim>\<open>start\<close> (line 80) is never
    closed, so the module as it stands does not compile and none of its handlers can
    run. All definitions below embed the text with this one parenthesis closed after
    the \<^verbatim>\<open>reply_markup\<close> argument, where the comment on that line and the indentation
    of the following \<^verbatim>\<open>session.close()\<close> place it. Every line of \<^verbatim>\<open>start\<close> before
    that call, and every other handler, is embedded as it stands.
  \<^item> A command handler also receives edited messages; for those \<^verbatim>\<open>update.message\<close> is
    \<^verbatim>\<open>None\<close>. A callback query has a \<^verbatim>\<open>message\<close> unless the message is no longer
    available. Both cases are inputs of the handlers that read \<^verbatim>\<open>message\<close>.
  \<^item> Calls of the chat interface on an object that exists, other than \<^verbatim>\<open>send_message\<close>
    (whose failure the code catches), are taken to succeed, and so is the database
    unless a uniqueness constraint of the schema is violated.
  \<^item> The application is built without concurrent updates, so handlers run one after
    the other.
\<close>

subsection \<open>Exceptions\<close>

datatype py_error =
    AttributeError
  | IndexError
  | IntegrityError
  | RequestException
  | TelegramError

subsection \<open>The tables \<^verbatim>\<open>users\<close> and \<^verbatim>\<open>emails\<close>\<close>

record User =
  u_id :: nat
  telegram_id :: int
  join_date :: nat
  is_verified :: bool

record EmailAccount =
  e_id :: nat
  user_id :: int
  email :: string
  password :: string
  created_at :: nat

record db =
  users :: "User list"
  emails :: "EmailAccount list"

subsection \<open>The outside world\<close>

text \<open>
  What the collaborators answer during one handler call: the membership oracle
  (\<^verbatim>\<open>get_chat_member\<close>: the member's status, or an exception), the mail provider (the
  domains of \<^verbatim>\<open>GET /domains\<close> in the order of \<^verbatim>\<open>hydra:member\<close>, the status code of
  \<^verbatim>\<open>POST /accounts\<close>, or an exception of \<^verbatim>\<open>requests\<close>), the delivery of a broadcast
  message, the successive outcomes of the random generator, the clock, and the two
  environment variables the handlers read.
\<close>

record world =
  get_chat_member :: "int \<Rightarrow> py_error + string"
  get_domains :: "py_error + string list"
  post_accounts :: "string \<Rightarrow> string \<Rightarrow> py_error + nat"
  send_message :: "int \<Rightarrow> string \<Rightarrow> py_error option"
  random_draws :: "nat \<Rightarrow> nat"
  utcnow :: nat
  ADMIN_ID :: "string option"
  CHANNEL_ID :: "string option"

subsection \<open>Observable calls\<close>

datatype button =
    UrlButton string string
  | CallbackButton string string

type_synonym keyboard = "button list list"

datatype event =
    Answer
  | GetChatMember "string option" int
  | LogMembershipError py_error
  | LogSendFailed int py_error
  | ReplyText string "keyboard option"
  | EditMessageText string "keyboard option" "string option"
  | SendMessage int string
  | HttpGet string
  | HttpPost string string string
  | SessionOpen
  | QueryUserFirst int
  | QueryVerifiedAll
  | SessionAdd
  | SessionCommit
  | SessionClose

record result =
  raised :: "py_error option"
  store :: db
  trace :: "event list"

subsection \<open>\<^verbatim>\<open>is_member\<close>\<close>

definition member_statuses :: "string list" where
  "member_statuses = [''member'', ''administrator'', ''creator'']"

definition is_member :: "world \<Rightarrow> int \<Rightarrow> bool \<times> event list" where
  "is_member w tid =
     (case get_chat_member w tid of
        Inr status \<Rightarrow> (status \<in> set member_statuses, [GetChatMember (CHANNEL_ID w) tid])
      | Inl e \<Rightarrow> (False, [GetChatMember (CHANNEL_ID w) tid, LogMembershipError e]))"

subsection \<open>Strings\<close>

text \<open>\<^verbatim>\<open>str\<close> of an integer (decimal), \<^verbatim>\<open>str\<close> of an environment variable inside an
  f-string (\<^verbatim>\<open>None\<close> when unset), and \<^verbatim>\<open>" ".join\<close>.\<close>

fun str_nat :: "nat \<Rightarrow> string" where
  "str_nat n =
     (if n < 10 then [''0123456789'' ! n]
      else str_nat (n div 10) @ [''0123456789'' ! (n mod 10)])"

definition str_int :: "int \<Rightarrow> string" where
  "str_int i = (if i < 0 then CHR ''-'' # str_nat (nat (- i)) else str_nat (nat i))"

definition str_env :: "string option \<Rightarrow> string" where
  "str_env v = (case v of None \<Rightarrow> ''None'' | Some s \<Rightarrow> s)"

fun join_space :: "string list \<Rightarrow> string" where
  "join_space [] = []"
| "join_space [x] = x"
| "join_space (x # y # ys) = x @ '' '' @ join_space (y # ys)"

subsection \<open>\<^verbatim>\<open>generate_random_string\<close>\<close>

definition ascii_lowercase :: string where
  "ascii_lowercase = ''abcdefghijklmnopqrstuvwxyz''"

text \<open>\<^verbatim>\<open>random.choice(seq)\<close> is \<^verbatim>\<open>seq[randbelow(len(seq))]\<close>; the outcome of the generator
  is reduced to the range of the sequence.\<close>

definition random_choice :: "'a list \<Rightarrow> nat \<Rightarrow> 'a" where
  "random_choice seq r = seq ! (r mod length seq)"

text \<open>\<open>generate_random_string draws k n\<close> is the string of \<open>n\<close> letters chosen with the
  outcomes \<open>draws k\<close>, \<open>draws (k + 1)\<close>, ... in this order.\<close>

fun generate_random_string :: "(nat \<Rightarrow> nat) \<Rightarrow> nat \<Rightarrow> nat \<Rightarrow> string" where
  "generate_random_string draws k 0 = []"
| "generate_random_string draws k (Suc n) =
     random_choice ascii_lowercase (draws k) # generate_random_string draws (Suc k) n"

subsection \<open>Database queries and updates\<close>

fun first_index :: "('a \<Rightarrow> bool) \<Rightarrow> 'a list \<Rightarrow> nat option" where
  "first_index P [] = None"
| "first_index P (x # xs) = (if P x then Some 0 else map_option Suc (first_index P xs))"

text \<open>\<^verbatim>\<open>session.query(User).filter_by(telegram_id=...).first()\<close>: the position of the row
  that the returned object stands for, \<open>None\<close> when there is no such row.\<close>

definition query_user_first :: "int \<Rightarrow> User list \<Rightarrow> nat option" where
  "query_user_first tid us = first_index (\<lambda>u. telegram_id u = tid) us"

definition next_id :: "nat list \<Rightarrow> nat" where
  "next_id ids = Suc (fold max ids 0)"

text \<open>\<^verbatim>\<open>session.add(User(telegram_id=...)); session.commit()\<close>: the column defaults give
  the join date and \<^verbatim>\<open>is_verified = False\<close>.\<close>

definition add_user :: "nat \<Rightarrow> int \<Rightarrow> User list \<Rightarrow> User list" where
  "add_user now tid us =
     us @ [\<lparr>u_id = next_id (map u_id us), telegram_id = tid, join_date = now,
            is_verified = False\<rparr>]"

text \<open>\<^verbatim>\<open>db_user.is_verified = True; session.commit()\<close> on the row at position \<open>i\<close>.
  The handlers call it with the position of a row they have found or just added.\<close>

definition mark_verified :: "nat \<Rightarrow> User list \<Rightarrow> User list" where
  "mark_verified i us = us[i := (us ! i)\<lparr>is_verified := True\<rparr>]"

subsection \<open>\<^verbatim>\<open>show_main_menu\<close>\<close>

definition main_menu_keyboard :: keyboard where
  "main_menu_keyboard =
     [[CallbackButton ''Generate New Email'' ''new_email''],
      [CallbackButton ''Check Inbox'' ''check_inbox''],
      [CallbackButton ''Delete Email'' ''delete_email'']]"

text \<open>The function is called with two kinds of object: \<^verbatim>\<open>start\<close> passes the update,
  \<^verbatim>\<open>verify\<close> passes the callback query. The flag tells whether the \<^verbatim>\<open>message\<close> of the
  object is set. With a message the menu is sent as a reply to it. Without one the
  function calls \<^verbatim>\<open>edit_message_text\<close> on the object: a callback query has this method,
  an update has not, and the call raises \<^verbatim>\<open>AttributeError\<close>.\<close>

datatype chat_object =
    UpdateObject bool
  | CallbackQueryObject bool

fun has_message :: "chat_object \<Rightarrow> bool" where
  "has_message (UpdateObject m) = m"
| "has_message (CallbackQueryObject m) = m"

definition show_main_menu :: "chat_object \<Rightarrow> py_error option \<times> event list" where
  "show_main_menu obj =
     (if has_message obj then (None, [ReplyText ''Main Menu:'' (Some main_menu_keyboard)])
      else (case obj of
              CallbackQueryObject _ \<Rightarrow>
                (None, [EditMessageText ''Main Menu:'' (Some main_menu_keyboard) None])
            | UpdateObject _ \<Rightarrow> (Some AttributeError, [])))"

subsection \<open>\<^verbatim>\<open>start\<close>\<close>

definition join_keyboard :: "world \<Rightarrow> keyboard" where
  "join_keyboard w =
     [[UrlButton ''Join Channel'' (''https://t.me/'' @ str_env (CHANNEL_ID w))],
      [CallbackButton ''Verify'' ''verify'']]"

definition join_prompt :: "world \<Rightarrow> event" where
  "join_prompt w =
     ReplyText ''Please join our channel to use this bot!'' (Some (join_keyboard w))"

text \<open>\<open>message\<close> tells whether \<^verbatim>\<open>update.message\<close> is set. The row is looked up or added,
  and marked verified on a positive gate, before anything is sent. Without a message
  the member branch raises inside \<^verbatim>\<open>show_main_menu\<close> and the other branch raises on
  \<^verbatim>\<open>update.message.reply_text\<close>; in both the commits are done and \<^verbatim>\<open>session.close()\<close>
  is not reached.\<close>

definition start :: "world \<Rightarrow> int \<Rightarrow> bool \<Rightarrow> db \<Rightarrow> result" where
  "start w uid message d =
     (let t0 = [SessionOpen, QueryUserFirst uid];
          (us1, i, t1) =
            (case query_user_first uid (users d) of
               None \<Rightarrow> (add_user (utcnow w) uid (users d), length (users d),
                          t0 @ [SessionAdd, SessionCommit])
             | Some i \<Rightarrow> (users d, i, t0));
          (m, tm) = is_member w uid
      in if m
         then (case show_main_menu (UpdateObject message) of
                 (None, ts) \<Rightarrow>
                   \<lparr>raised = None,
                    store = d\<lparr>users := mark_verified i us1\<rparr>,
                    trace = t1 @ tm @ [SessionCommit] @ ts @ [SessionClose]\<rparr>
               | (Some e, ts) \<Rightarrow>
                   \<lparr>raised = Some e,
                    store = d\<lparr>users := mark_verified i us1\<rparr>,
                    trace = t1 @ tm @ [SessionCommit] @ ts\<rparr>)
         else if message
         then \<lparr>raised = None,
               store = d\<lparr>users := us1\<rparr>,
               trace = t1 @ tm @ [join_prompt w, SessionClose]\<rparr>
         else \<lparr>raised = Some AttributeError,
               store = d\<lparr>users := us1\<rparr>,
               trace = t1 @ tm\<rparr>)"

subsection \<open>\<^verbatim>\<open>verify\<close>\<close>

definition not_joined_text :: string where
  "not_joined_text = ''You haven'' @ [CHR 0x27] @ ''t joined the channel yet!''"

text \<open>With no row for the user \<^verbatim>\<open>db_user\<close> is \<^verbatim>\<open>None\<close>, and the assignment to
  \<^verbatim>\<open>db_user.is_verified\<close> raises \<^verbatim>\<open>AttributeError\<close>.\<close>

definition verify :: "world \<Rightarrow> int \<Rightarrow> bool \<Rightarrow> db \<Rightarrow> result" where
  "verify w uid message d =
     (let t0 = [Answer, SessionOpen, QueryUserFirst uid];
          db_user = query_user_first uid (users d);
          (m, tm) = is_member w uid
      in if m
         then (case db_user of
                 None \<Rightarrow> \<lparr>raised = Some AttributeError, store = d, trace = t0 @ tm\<rparr>
               | Some i \<Rightarrow>
                   (let t1 = t0 @ tm
                      @ [SessionCommit, EditMessageText ''Verification successful!'' None None]
                    in case show_main_menu (CallbackQueryObject message) of
                         (None, ts) \<Rightarrow>
                           \<lparr>raised = None,
                            store = d\<lparr>users := mark_verified i (users d)\<rparr>,
                            trace = t1 @ ts @ [SessionClose]\<rparr>
                       | (Some e, ts) \<Rightarrow>
                           \<lparr>raised = Some e,
                            store = d\<lparr>users := mark_verified i (users d)\<rparr>,
                            trace = t1 @ ts\<rparr>))
         else \<lparr>raised = None, store = d,
               trace = t0 @ tm @ [EditMessageText not_joined_text None None, SessionClose]\<rparr>)"

subsection \<open>\<^verbatim>\<open>new_email\<close>\<close>

definition MAIL_API :: string where
  "MAIL_API = ''https://api.mail.tm''"

definition failed_text :: string where
  "failed_text = ''Failed to create email. Please try again.''"

text \<open>\<^verbatim>\<open>session.add(EmailAccount(...)); session.commit()\<close>: the column \<^verbatim>\<open>email\<close> is
  unique, so committing an address that the table already holds raises
  \<^verbatim>\<open>IntegrityError\<close> and stores nothing.\<close>

definition add_email :: "nat \<Rightarrow> int \<Rightarrow> string \<Rightarrow> string \<Rightarrow> EmailAccount list
    \<Rightarrow> py_error + EmailAccount list" where
  "add_email now uid address pw es =
     (if address \<in> set (map email es) then Inl IntegrityError
      else Inr (es @ [\<lparr>e_id = next_id (map e_id es), user_id = uid, email = address,
                        password = pw, created_at = now\<rparr>]))"

text \<open>The handler reads nothing but the id of the user who pressed the button: the
  table \<^verbatim>\<open>users\<close> is not queried. The first ten outcomes of the generator give the
  local part, the next sixteen the password.\<close>

definition new_email :: "world \<Rightarrow> int \<Rightarrow> db \<Rightarrow> result" where
  "new_email w uid d =
     (let t0 = [Answer, HttpGet (MAIL_API @ ''/domains'')]
      in case get_domains w of
           Inl e \<Rightarrow> \<lparr>raised = Some e, store = d, trace = t0\<rparr>
         | Inr [] \<Rightarrow> \<lparr>raised = Some IndexError, store = d, trace = t0\<rparr>
         | Inr (domain # _) \<Rightarrow>
             (let address = generate_random_string (random_draws w) 0 10 @ ''@'' @ domain;
                  pw = generate_random_string (random_draws w) 10 16;
                  t1 = t0 @ [HttpPost (MAIL_API @ ''/accounts'') address pw]
              in case post_accounts w address pw of
                   Inl e \<Rightarrow> \<lparr>raised = Some e, store = d, trace = t1\<rparr>
                 | Inr status_code \<Rightarrow>
                     if status_code = 201
                     then (case add_email (utcnow w) uid address pw (emails d) of
                             Inl e \<Rightarrow>
                               \<lparr>raised = Some e, store = d,
                                trace = t1 @ [SessionOpen, SessionAdd, SessionCommit]\<rparr>
                           | Inr es \<Rightarrow>
                               \<lparr>raised = None, store = d\<lparr>emails := es\<rparr>,
                                trace = t1 @ [SessionOpen, SessionAdd, SessionCommit, SessionClose,
                                  EditMessageText (''Your new email: `'' @ address @ ''`'') None
                                    (Some ''Markdown'')]\<rparr>)
                     else \<lparr>raised = None, store = d,
                           trace = t1 @ [EditMessageText failed_text None None]\<rparr>))"

subsection \<open>\<^verbatim>\<open>check_inbox\<close> and \<^verbatim>\<open>delete_email\<close>\<close>

definition check_inbox :: "db \<Rightarrow> result" where
  "check_inbox d =
     \<lparr>raised = None, store = d,
      trace = [Answer, EditMessageText ''Inbox feature coming soon!'' None None]\<rparr>"

definition delete_email :: "db \<Rightarrow> result" where
  "delete_email d =
     \<lparr>raised = None, store = d,
      trace = [Answer, EditMessageText ''Delete feature coming soon!'' None None]\<rparr>"

subsection \<open>\<^verbatim>\<open>notify_all\<close>\<close>

text \<open>The text of the announcement; the first nine bytes are the four characters that
  precede \<^verbatim>\<open>Admin Announcement\<close> in the file, in UTF-8.\<close>

definition announcement :: "string \<Rightarrow> string" where
  "announcement message =
     [CHR 0xC3, CHR 0xB0, CHR 0xC5, CHR 0xB8, CHR 0xE2, CHR 0x80, CHR 0x9C, CHR 0xC2, CHR 0xA2]
       @ '' Admin Announcement:'' @ [CHR 0x0A, CHR 0x0A] @ message"

text \<open>The loop over the verified users: a delivery that raises is logged and not
  counted.\<close>

fun send_all :: "world \<Rightarrow> string \<Rightarrow> User list \<Rightarrow> nat \<Rightarrow> nat \<times> event list" where
  "send_all w text [] count = (count, [])"
| "send_all w text (user # rest) count =
     (case send_message w (telegram_id user) text of
        None \<Rightarrow>
          (let (c, t) = send_all w text rest (Suc count)
           in (c, SendMessage (telegram_id user) text # t))
      | Some e \<Rightarrow>
          (let (c, t) = send_all w text rest count
           in (c, SendMessage (telegram_id user) text # LogSendFailed (telegram_id user) e # t)))"

definition notify_all :: "world \<Rightarrow> int \<Rightarrow> string list \<Rightarrow> db \<Rightarrow> result" where
  "notify_all w uid args d =
     (if Some (str_int uid) \<noteq> ADMIN_ID w then \<lparr>raised = None, store = d, trace = []\<rparr>
      else
        (let message = join_space args
         in if message = []
            then \<lparr>raised = None, store = d,
                  trace = [ReplyText ''Usage: /notifyall <message>'' None]\<rparr>
            else
              (let verified_users = filter is_verified (users d);
                   (count, t) = send_all w (announcement message) verified_users 0
               in \<lparr>raised = None, store = d,
                   trace = [SessionOpen, QueryVerifiedAll, SessionClose] @ t
                     @ [ReplyText (''Notification sent to '' @ str_nat count @ '' users'')
                          None]\<rparr>)))"

subsection \<open>The handler table of \<^verbatim>\<open>main\<close>\<close>

text \<open>The updates that \<^verbatim>\<open>main\<close> registers a handler for: the commands
  \<^verbatim>\<open>/start\<close> and \<^verbatim>\<open>/notifyall\<close> with the id of the sender, and the four callback
  buttons with the id of the user who pressed them (the two stubs do not read it).
  \<^verbatim>\<open>/start\<close> and \<^verbatim>\<open>verify\<close> carry the flag of their \<^verbatim>\<open>message\<close>.\<close>

datatype update =
    StartCommand int bool
  | VerifyQuery int bool
  | NewEmailQuery int
  | CheckInboxQuery int
  | DeleteEmailQuery int
  | NotifyAllCommand int "string list"

fun handle_update :: "world \<Rightarrow> update \<Rightarrow> db \<Rightarrow> result" where
  "handle_update w (StartCommand uid message) d = start w uid message d"
| "handle_update w (VerifyQuery uid message) d = verify w uid message d"
| "handle_update w (NewEmailQuery uid) d = new_email w uid d"
| "handle_update w (CheckInboxQuery uid) d = check_inbox d"
| "handle_update w (DeleteEmailQuery uid) d = delete_email d"
| "handle_update w (NotifyAllCommand uid args) d = notify_all w uid args d"

text \<open>A run of the bot: the updates are handled one after the other, each in the world
  of its own moment; an exception that escapes a handler is logged by the framework and
  the next update is handled on the database as it was left.\<close>

fun run :: "(world \<times> update) list \<Rightarrow> db \<Rightarrow> db" where
  "run [] d = d"
| "run ((w, u) # rest) d = run rest (store (handle_update w u d))"

subsection \<open>Relations between two states of the database\<close>

text \<open>Every row of the first table is still there, at its position, and a row that was
  verified is verified.\<close>

definition verified_preserved :: "User list \<Rightarrow> User list \<Rightarrow> bool" where
  "verified_preserved us us' =
     (length us \<le> length us'
      \<and> list_all (\<lambda>(u, u'). is_verified u \<longrightarrow> is_verified u') (zip us us'))"

definition same_user :: "User \<Rightarrow> User \<Rightarrow> bool" where
  "same_user u u' =
     (u_id u' = u_id u \<and> telegram_id u' = telegram_id u \<and> join_date u' = join_date u)"

text \<open>No row of either table has been deleted: the users are the same users at the same
  positions (only \<^verbatim>\<open>is_verified\<close> may differ), and the old mailboxes are the first
  mailboxes of the new table, unchanged.\<close>

definition nothing_deleted :: "db \<Rightarrow> db \<Rightarrow> bool" where
  "nothing_deleted d d' =
     (length (users d) \<le> length (users d')
      \<and> list_all (\<lambda>(u, u'). same_user u u') (zip (users d) (users d'))
      \<and> prefix (emails d) (emails d'))"

text \<open>The main menu (the text \<^verbatim>\<open>Main Menu:\<close> with the three buttons of lines 104 to 108)
  is among the calls of a trace, sent as a reply or as an edit.\<close>

definition menu_shown :: "event list \<Rightarrow> bool" where
  "menu_shown t =
     (ReplyText ''Main Menu:''
        (Some [[CallbackButton ''Generate New Email'' ''new_email''],
               [CallbackButton ''Check Inbox'' ''check_inbox''],
               [CallbackButton ''Delete Email'' ''delete_email'']]) \<in> set t
      \<or> EditMessageText ''Main Menu:''
        (Some [[CallbackButton ''Generate New Email'' ''new_email''],
               [CallbackButton ''Check Inbox'' ''check_inbox''],
               [CallbackButton ''Delete Email'' ''delete_email'']]) None \<in> set t)"

subsection \<open>A concrete scenario\<close>

text \<open>A world where the oracle reports that the user has left the channel, the provider
  offers two domains and accepts every account, and the generator yields 0, 1, 2, ...;
  and a database with one unverified user.\<close>

definition example_world :: world where
  "example_world =
     \<lparr>get_chat_member = (\<lambda>_. Inr ''left''),
      get_domains = Inr [''example.com'', ''other.org''],
      post_accounts = (\<lambda>_ _. Inr 201),
      send_message = (\<lambda>_ _. None),
      random_draws = (\<lambda>k. k),
      utcnow = 5,
      ADMIN_ID = Some ''42'',
      CHANNEL_ID = Some ''chan''\<rparr>"

definition example_db :: db where
  "example_db =
     \<lparr>users = [\<lparr>u_id = 1, telegram_id = 7, join_date = 2, is_verified = False\<rparr>],
      emails = []\<rparr>"

section \<open>Properties\<close>

subsection \<open>Auxiliary facts\<close>

lemma first_index_SomeD:
  "first_index P xs = Some i \<Longrightarrow> i < length xs \<and> P (xs ! i)"
proof (induction xs arbitrary: i)
  case Nil
  then show ?case by simp
next
  case (Cons x xs)
  then show ?case by (cases "P x") auto
qed

lemma first_index_append_None:
  "first_index P xs = None \<Longrightarrow> first_index P (xs @ [y]) = (if P y then Some (length xs) else None)"
  by (induction xs) (auto split: if_splits)

lemma first_index_map: "first_index P (map f xs) = first_index (\<lambda>x. P (f x)) xs"
  by (induction xs) auto

lemma telegram_ids_mark_verified [simp]:
  "map telegram_id (mark_verified i us) = map telegram_id us"
proof (rule nth_equalityI)
  fix j
  assume "j < length (map telegram_id (mark_verified i us))"
  then show "map telegram_id (mark_verified i us) ! j = map telegram_id us ! j"
    by (cases "j = i") (simp_all add: mark_verified_def)
qed (simp add: mark_verified_def)

lemma query_user_first_ids:
  "query_user_first tid us = first_index (\<lambda>t. t = tid) (map telegram_id us)"
  by (simp add: query_user_first_def first_index_map)

lemma query_user_first_mark_verified [simp]:
  "query_user_first tid (mark_verified i us) = query_user_first tid us"
  by (simp add: query_user_first_ids)

lemma query_user_first_add_user:
  "query_user_first tid us = None \<Longrightarrow> query_user_first tid (add_user now tid us) = Some (length us)"
  by (simp add: query_user_first_def add_user_def first_index_append_None)

lemma length_mark_verified [simp]: "length (mark_verified i us) = length us"
  by (simp add: mark_verified_def)

lemma length_add_user [simp]: "length (add_user now tid us) = Suc (length us)"
  by (simp add: add_user_def)

lemma nth_mark_verified:
  "j < length us \<Longrightarrow>
   mark_verified i us ! j = (if j = i then (us ! j)\<lparr>is_verified := True\<rparr> else us ! j)"
  by (simp add: mark_verified_def nth_list_update)

lemma nth_add_user_old: "j < length us \<Longrightarrow> add_user now tid us ! j = us ! j"
  by (simp add: add_user_def nth_append)

lemma nth_add_user_new:
  "add_user now tid us ! length us =
     \<lparr>u_id = next_id (map u_id us), telegram_id = tid, join_date = now, is_verified = False\<rparr>"
  by (simp add: add_user_def)

text \<open>What \<^verbatim>\<open>start\<close> and \<^verbatim>\<open>verify\<close> leave in the table \<^verbatim>\<open>users\<close>.\<close>

lemma start_users:
  "users (store (start w uid msg d)) =
     (case query_user_first uid (users d) of
        None \<Rightarrow>
          if fst (is_member w uid)
          then mark_verified (length (users d)) (add_user (utcnow w) uid (users d))
          else add_user (utcnow w) uid (users d)
      | Some i \<Rightarrow> if fst (is_member w uid) then mark_verified i (users d) else users d)"
  by (simp add: start_def Let_def show_main_menu_def split: option.split prod.split)

lemma verify_users:
  "users (store (verify w uid b d)) =
     (case query_user_first uid (users d) of
        None \<Rightarrow> users d
      | Some i \<Rightarrow> if fst (is_member w uid) then mark_verified i (users d) else users d)"
  by (simp add: verify_def Let_def show_main_menu_def split: option.split prod.split)

lemma new_email_users: "users (store (new_email w uid d)) = users d"
  by (simp add: new_email_def Let_def split: sum.split list.split)

lemma notify_all_store: "store (notify_all w uid args d) = d"
  by (simp add: notify_all_def Let_def split: prod.split)

lemma start_emails: "emails (store (start w uid msg d)) = emails d"
  by (simp add: start_def Let_def show_main_menu_def split: option.split prod.split)

lemma verify_emails: "emails (store (verify w uid b d)) = emails d"
  by (simp add: verify_def Let_def show_main_menu_def split: option.split prod.split)

lemma new_email_emails:
  "prefix (emails d) (emails (store (new_email w uid d)))"
  by (simp add: new_email_def add_email_def Let_def split: sum.split list.split)

subsection \<open>The traces of \<^verbatim>\<open>start\<close> and \<^verbatim>\<open>verify\<close>\<close>

lemma is_member_trace:
  "snd (is_member w tid) = [GetChatMember (CHANNEL_ID w) tid]
   \<or> (\<exists>e. snd (is_member w tid) = [GetChatMember (CHANNEL_ID w) tid, LogMembershipError e])"
  by (simp add: is_member_def split: sum.split)

lemma start_trace:
  "trace (start w uid msg d) =
     (case query_user_first uid (users d) of
        None \<Rightarrow> [SessionOpen, QueryUserFirst uid, SessionAdd, SessionCommit]
      | Some i \<Rightarrow> [SessionOpen, QueryUserFirst uid])
     @ snd (is_member w uid)
     @ (if fst (is_member w uid)
        then (if msg
              then [SessionCommit, ReplyText ''Main Menu:'' (Some main_menu_keyboard), SessionClose]
              else [SessionCommit])
        else (if msg then [join_prompt w, SessionClose] else []))"
  by (simp add: start_def Let_def show_main_menu_def case_prod_beta split: option.split)

lemma verify_trace:
  "trace (verify w uid b d) =
     [Answer, SessionOpen, QueryUserFirst uid] @ snd (is_member w uid)
     @ (if fst (is_member w uid)
        then (case query_user_first uid (users d) of
                None \<Rightarrow> []
              | Some i \<Rightarrow>
                  [SessionCommit, EditMessageText ''Verification successful!'' None None]
                  @ (if b then [ReplyText ''Main Menu:'' (Some main_menu_keyboard)]
                     else [EditMessageText ''Main Menu:'' (Some main_menu_keyboard) None])
                  @ [SessionClose])
        else [EditMessageText not_joined_text None None, SessionClose])"
  by (simp add: verify_def Let_def show_main_menu_def case_prod_beta split: option.split)

lemma start_raised:
  "raised (start w uid msg d) = (if msg then None else Some AttributeError)"
  by (simp add: start_def Let_def show_main_menu_def case_prod_beta)

lemma mark_verified_twice: "mark_verified i (mark_verified i us) = mark_verified i us"
  by (cases "i < length us") (simp_all add: mark_verified_def list_update_beyond)

lemma start_store:
  "store (start w uid msg d) = d\<lparr>users := users (store (start w uid msg d))\<rparr>"
  by (simp add: start_def Let_def show_main_menu_def case_prod_beta)

lemma verify_store:
  "store (verify w uid b d) = d\<lparr>users := users (store (verify w uid b d))\<rparr>"
  by (simp add: verify_def Let_def show_main_menu_def case_prod_beta split: option.split)

lemma query_after_start:
  "fst (is_member w uid) \<Longrightarrow>
   \<exists>i. query_user_first uid (users (store (start w uid msg d))) = Some i
     \<and> users (store (start w uid msg d)) = mark_verified i (users (store (start w uid msg d)))"
proof (cases "query_user_first uid (users d)")
  case None
  assume "fst (is_member w uid)"
  then show ?thesis
    using None query_user_first_add_user [OF None, of "utcnow w"]
    by (simp add: start_users mark_verified_twice)
next
  case (Some i)
  assume "fst (is_member w uid)"
  then show ?thesis
    using Some by (simp add: start_users mark_verified_twice)
qed

subsection \<open>The membership gate\<close>

text \<open>
  Claim C4. \<^verbatim>\<open>is_member\<close> answers yes exactly when the oracle reports one of the statuses
  \<^verbatim>\<open>member\<close>, \<^verbatim>\<open>administrator\<close>, \<^verbatim>\<open>creator\<close>; any other status and any exception of the
  oracle give no. The exception does not reach the caller: when the oracle raises,
  \<^verbatim>\<open>start\<close> (on an update with a message) and \<^verbatim>\<open>verify\<close> end without an exception;
  on every update \<^verbatim>\<open>start\<close> ends as it ends, and leaves the database as it leaves it,
  for a user who has left the channel; and neither handler shows the menu.
\<close>

theorem is_member_fails_closed:
  "fst (is_member w tid) =
     (case get_chat_member w tid of
        Inr status \<Rightarrow> status = ''member'' \<or> status = ''administrator'' \<or> status = ''creator''
      | Inl e \<Rightarrow> False)
   \<and> (get_chat_member w tid = Inl e \<longrightarrow>
        raised (start w tid True d) = None
        \<and> raised (start w tid msg d)
            = raised (start (w\<lparr>get_chat_member := \<lambda>_. Inr ''left''\<rparr>) tid msg d)
        \<and> store (start w tid msg d)
            = store (start (w\<lparr>get_chat_member := \<lambda>_. Inr ''left''\<rparr>) tid msg d)
        \<and> \<not> menu_shown (trace (start w tid msg d))
        \<and> raised (verify w tid b d) = None
        \<and> store (verify w tid b d) = d
        \<and> \<not> menu_shown (trace (verify w tid b d)))"
  by (simp add: is_member_def member_statuses_def start_def verify_def Let_def menu_shown_def
      show_main_menu_def main_menu_keyboard_def join_prompt_def split: sum.split option.split)

theorem is_member_fails_closed_witness:
  "get_chat_member (example_world\<lparr>get_chat_member := \<lambda>_. Inl TelegramError\<rparr>) 7 = Inl TelegramError
   \<and> \<not> fst (is_member (example_world\<lparr>get_chat_member := \<lambda>_. Inl TelegramError\<rparr>) 7)
   \<and> store (verify (example_world\<lparr>get_chat_member := \<lambda>_. Inl TelegramError\<rparr>) 7 True example_db)
       = example_db"
  using is_member_fails_closed
    [of "example_world\<lparr>get_chat_member := \<lambda>_. Inl TelegramError\<rparr>" 7 TelegramError example_db
      True True]
  by simp

subsection \<open>The broadcast\<close>



subsection \<open>Verification without a record\<close>

text \<open>
  Claim C9. For a user with no row in \<^verbatim>\<open>users\<close>, \<^verbatim>\<open>verify\<close> creates none and leaves the
  database unchanged; when the gate says member it raises \<^verbatim>\<open>AttributeError\<close> before any
  commit and without showing the menu. The handler raises in this case only: an existing
  row is what makes it free of errors.
\<close>

theorem verify_without_record:
  "(query_user_first uid (users d) = None \<longrightarrow>
      store (verify w uid b d) = d
      \<and> (fst (is_member w uid) \<longrightarrow>
           raised (verify w uid b d) = Some AttributeError
           \<and> SessionCommit \<notin> set (trace (verify w uid b d))
           \<and> \<not> menu_shown (trace (verify w uid b d))))
   \<and> (raised (verify w uid b d) \<noteq> None \<longleftrightarrow>
        query_user_first uid (users d) = None \<and> fst (is_member w uid))"
  by (auto simp: verify_def Let_def is_member_def menu_shown_def show_main_menu_def
      main_menu_keyboard_def
      split: sum.splits option.splits prod.splits)

theorem verify_without_record_witness:
  "query_user_first 8 (users example_db) = None
   \<and> fst (is_member (example_world\<lparr>get_chat_member := \<lambda>_. Inr ''member''\<rparr>) 8)
   \<and> raised (verify (example_world\<lparr>get_chat_member := \<lambda>_. Inr ''member''\<rparr>) 8 True example_db)
       = Some AttributeError
   \<and> store (verify (example_world\<lparr>get_chat_member := \<lambda>_. Inr ''member''\<rparr>) 8 True example_db)
       = example_db"
  using verify_without_record
    [of 8 example_db "example_world\<lparr>get_chat_member := \<lambda>_. Inr ''member''\<rparr>" True]
  by (simp add: example_db_def query_user_first_def is_member_def member_statuses_def)

subsection \<open>Generated addresses and secrets\<close>

lemma generate_random_string_map:
  "generate_random_string draws k n =
     map (\<lambda>i. ''abcdefghijklmnopqrstuvwxyz'' ! (draws i mod 26)) [k..<k + n]"
proof (induction n arbitrary: k)
  case 0
  then show ?case by simp
next
  case (Suc n)
  have "[k..<k + Suc n] = k # [Suc k..<Suc k + n]"
    by (simp add: upt_conv_Cons)
  with Suc show ?case
    by (simp add: random_choice_def ascii_lowercase_def)
qed

lemma length_generate_random_string: "length (generate_random_string draws k n) = n"
  by (simp add: generate_random_string_map)

lemma letters_generate_random_string:
  "set (generate_random_string draws k n) \<subseteq> set ''abcdefghijklmnopqrstuvwxyz''"
proof -
  have "''abcdefghijklmnopqrstuvwxyz'' ! (r mod 26) \<in> set ''abcdefghijklmnopqrstuvwxyz''" for r :: nat
    by (rule nth_mem) simp
  then show ?thesis
    unfolding generate_random_string_map by (auto simp del: list.set)
qed

text \<open>
  Claim C5. When the provider's list of domains is not empty, \<^verbatim>\<open>new_email\<close> asks the
  provider for the address \<open>L@D\<close>, where \<open>D\<close> is the first domain of the list and \<open>L\<close>
  has exactly 10 characters, all among the 26 lowercase letters, and for a secret of
  exactly 16 such letters; a mailbox that it stores has this address and this secret.
  Each character is the letter that one outcome of the generator selects, a new outcome
  for every character: outcomes 0 to 9 give the local part, 10 to 25 the secret.
\<close>

theorem new_email_address_form:
  "get_domains w = Inr (domain # ds) \<Longrightarrow>
   (let L = generate_random_string (random_draws w) 0 10;
        S = generate_random_string (random_draws w) 10 16
    in length L = 10 \<and> set L \<subseteq> set ''abcdefghijklmnopqrstuvwxyz''
       \<and> L = map (\<lambda>i. ''abcdefghijklmnopqrstuvwxyz'' ! (random_draws w i mod 26)) [0..<10]
       \<and> length S = 16 \<and> set S \<subseteq> set ''abcdefghijklmnopqrstuvwxyz''
       \<and> S = map (\<lambda>i. ''abcdefghijklmnopqrstuvwxyz'' ! (random_draws w i mod 26)) [10..<26]
       \<and> take 3 (trace (new_email w uid d)) =
           [Answer, HttpGet ''https://api.mail.tm/domains'',
            HttpPost ''https://api.mail.tm/accounts'' (L @ ''@'' @ domain) S]
       \<and> (emails (store (new_email w uid d)) = emails d
          \<or> (\<exists>r. emails (store (new_email w uid d)) = emails d @ [r]
                \<and> email r = L @ ''@'' @ domain \<and> password r = S \<and> user_id r = uid)))"
proof -
  assume dom: "get_domains w = Inr (domain # ds)"
  define L where "L = generate_random_string (random_draws w) 0 10"
  define S where "S = generate_random_string (random_draws w) 10 16"
  have L1: "length L = 10"
    unfolding L_def by (rule length_generate_random_string)
  have L2: "set L \<subseteq> set ''abcdefghijklmnopqrstuvwxyz''"
    unfolding L_def by (rule letters_generate_random_string)
  have L3: "L = map (\<lambda>i. ''abcdefghijklmnopqrstuvwxyz'' ! (random_draws w i mod 26)) [0..<10]"
    unfolding L_def using generate_random_string_map [of "random_draws w" 0 10]
    by (simp only: add_0)
  have S1: "length S = 16"
    unfolding S_def by (rule length_generate_random_string)
  have S2: "set S \<subseteq> set ''abcdefghijklmnopqrstuvwxyz''"
    unfolding S_def by (rule letters_generate_random_string)
  have "10 + 16 = (26::nat)"
    by simp
  then have S3: "S = map (\<lambda>i. ''abcdefghijklmnopqrstuvwxyz'' ! (random_draws w i mod 26)) [10..<26]"
    unfolding S_def using generate_random_string_map [of "random_draws w" 10 16]
    by (simp only:)
  have t: "take 3 (trace (new_email w uid d)) =
      [Answer, HttpGet ''https://api.mail.tm/domains'',
       HttpPost ''https://api.mail.tm/accounts'' (L @ ''@'' @ domain) S]"
    using dom unfolding L_def S_def
    by (simp add: new_email_def Let_def MAIL_API_def split: sum.split)
  have e: "emails (store (new_email w uid d)) = emails d
      \<or> (\<exists>r. emails (store (new_email w uid d)) = emails d @ [r]
            \<and> email r = L @ ''@'' @ domain \<and> password r = S \<and> user_id r = uid)"
    using dom unfolding L_def S_def
    by (simp add: new_email_def Let_def add_email_def split: sum.split)
  show ?thesis
    unfolding Let_def L_def [symmetric] S_def [symmetric]
    using L1 L2 L3 S1 S2 S3 t e by (intro conjI)
qed

theorem new_email_address_form_witness:
  "get_domains example_world = Inr (''example.com'' # [''other.org''])
   \<and> take 3 (trace (new_email example_world 7 example_db)) =
       [Answer, HttpGet ''https://api.mail.tm/domains'',
        HttpPost ''https://api.mail.tm/accounts'' ''abcdefghij@example.com'' ''klmnopqrstuvwxyz'']"
proof -
  have dom: "get_domains example_world = Inr (''example.com'' # [''other.org''])"
    by (simp add: example_world_def)
  have L: "generate_random_string (random_draws example_world) 0 10 = ''abcdefghij''"
    by code_simp
  have S: "generate_random_string (random_draws example_world) 10 16 = ''klmnopqrstuvwxyz''"
    by code_simp
  show ?thesis
    using new_email_address_form [OF dom, of 7 example_db] dom
    by (simp only: Let_def L S) simp
qed

subsection \<open>Provider failure\<close>

text \<open>
  Claim C2. When the provider answers the creation request with a status other than 201,
  \<^verbatim>\<open>new_email\<close> stores no mailbox: the database is left exactly as it was, no exception
  escapes, and the last thing the user gets is the message
  \<^verbatim>\<open>Failed to create email. Please try again.\<close> More generally, the database is unchanged
  whenever the provider never answers 201.
\<close>

theorem new_email_provider_failure:
  "((\<forall>a p. post_accounts w a p \<noteq> Inr 201) \<longrightarrow> store (new_email w uid d) = d)
   \<and> (get_domains w = Inr (domain # ds)
        \<and> post_accounts w (generate_random_string (random_draws w) 0 10 @ ''@'' @ domain)
             (generate_random_string (random_draws w) 10 16) = Inr status_code
        \<and> status_code \<noteq> 201 \<longrightarrow>
        store (new_email w uid d) = d
        \<and> raised (new_email w uid d) = None
        \<and> trace (new_email w uid d) =
            [Answer, HttpGet ''https://api.mail.tm/domains'',
             HttpPost ''https://api.mail.tm/accounts''
               (generate_random_string (random_draws w) 0 10 @ ''@'' @ domain)
               (generate_random_string (random_draws w) 10 16),
             EditMessageText ''Failed to create email. Please try again.'' None None])"
  by (auto simp: new_email_def Let_def MAIL_API_def failed_text_def split: sum.splits list.splits)

theorem new_email_provider_failure_witness:
  "get_domains (example_world\<lparr>post_accounts := \<lambda>_ _. Inr 422\<rparr>) = Inr (''example.com'' # [''other.org''])
   \<and> (\<forall>a p. post_accounts (example_world\<lparr>post_accounts := \<lambda>_ _. Inr 422\<rparr>) a p \<noteq> Inr 201)
   \<and> store (new_email (example_world\<lparr>post_accounts := \<lambda>_ _. Inr 422\<rparr>) 7 example_db) = example_db
   \<and> raised (new_email (example_world\<lparr>post_accounts := \<lambda>_ _. Inr 422\<rparr>) 7 example_db) = None
   \<and> last (trace (new_email (example_world\<lparr>post_accounts := \<lambda>_ _. Inr 422\<rparr>) 7 example_db))
       = EditMessageText ''Failed to create email. Please try again.'' None None"
  using new_email_provider_failure
    [of "example_world\<lparr>post_accounts := \<lambda>_ _. Inr 422\<rparr>" 7 example_db "''example.com''"
      "[''other.org'']" 422]
  by (simp add: example_world_def)

subsection \<open>\<^verbatim>\<open>start\<close> on an update without a message\<close>

text \<open>
  Claim C6 asks of \<^verbatim>\<open>start\<close> that it gets or creates the user's record and then shows
  the menu when the gate says member and the join prompt otherwise. The file does not
  do this. As it stands it does not compile (the parenthesis of line 80), so no
  \<^verbatim>\<open>/start\<close> is ever handled. And with the parenthesis closed, an edited \<^verbatim>\<open>/start\<close>
  (an update whose \<^verbatim>\<open>message\<close> is \<^verbatim>\<open>None\<close>) still gets neither menu nor prompt. In the
  scenario, user 8 has no row. When the oracle says that the user has left, the row is
  added and committed, the oracle is asked, and the handler raises \<^verbatim>\<open>AttributeError\<close>
  on \<^verbatim>\<open>update.message.reply_text\<close>: the trace holds no reply. When the oracle says
  member, the row is added, marked verified and committed, and the handler raises in
  \<^verbatim>\<open>show_main_menu\<close>: again no reply. In both runs the session is not closed.
\<close>

theorem start_without_message:
  "raised (start example_world 8 False example_db) = Some AttributeError
   \<and> users (store (start example_world 8 False example_db)) =
       [\<lparr>u_id = 1, telegram_id = 7, join_date = 2, is_verified = False\<rparr>,
        \<lparr>u_id = 2, telegram_id = 8, join_date = 5, is_verified = False\<rparr>]
   \<and> trace (start example_world 8 False example_db) =
       [SessionOpen, QueryUserFirst 8, SessionAdd, SessionCommit,
        GetChatMember (Some ''chan'') 8]
   \<and> raised (start (example_world\<lparr>get_chat_member := \<lambda>_. Inr ''member''\<rparr>) 8 False example_db)
       = Some AttributeError
   \<and> users (store (start (example_world\<lparr>get_chat_member := \<lambda>_. Inr ''member''\<rparr>) 8 False
        example_db)) =
       [\<lparr>u_id = 1, telegram_id = 7, join_date = 2, is_verified = False\<rparr>,
        \<lparr>u_id = 2, telegram_id = 8, join_date = 5, is_verified = True\<rparr>]
   \<and> trace (start (example_world\<lparr>get_chat_member := \<lambda>_. Inr ''member''\<rparr>) 8 False example_db) =
       [SessionOpen, QueryUserFirst 8, SessionAdd, SessionCommit,
        GetChatMember (Some ''chan'') 8, SessionCommit]"
proof -
  have q: "query_user_first 8 (users example_db) = None"
    by (simp add: example_db_def query_user_first_def)
  have left: "is_member example_world 8 = (False, [GetChatMember (Some ''chan'') 8])"
    by (simp add: example_world_def is_member_def member_statuses_def)
  have member: "is_member (example_world\<lparr>get_chat_member := \<lambda>_. Inr ''member''\<rparr>) 8
      = (True, [GetChatMember (Some ''chan'') 8])"
    by (simp add: example_world_def is_member_def member_statuses_def)
  have now: "utcnow example_world = 5"
    by (simp add: example_world_def)
  have rows: "users example_db = [\<lparr>u_id = 1, telegram_id = 7, join_date = 2, is_verified = False\<rparr>]"
    by (simp add: example_db_def)
  have new: "add_user 5 8 (users example_db) =
      [\<lparr>u_id = 1, telegram_id = 7, join_date = 2, is_verified = False\<rparr>,
       \<lparr>u_id = 2, telegram_id = 8, join_date = 5, is_verified = False\<rparr>]"
    by (simp add: rows add_user_def next_id_def)
  have n: "length (users example_db) = 1"
    by (simp add: rows)
  show ?thesis
    by (simp add: start_raised start_users start_trace q left member now new n
        mark_verified_def)
qed

subsection \<open>Marking a user verified twice\<close>

text \<open>
  Claim C7. Marking a row verified is idempotent: the second application changes nothing,
  the row is verified, and its id, its user id and its join date are those it had before.
  The same holds for the handlers: once \<^verbatim>\<open>start\<close> or \<^verbatim>\<open>verify\<close> has run with a positive
  gate, running \<^verbatim>\<open>start\<close> or \<^verbatim>\<open>verify\<close> again with a positive gate, at any later time
  and on any update, leaves the database as the first run left it.
\<close>

theorem mark_verified_idempotent:
  "mark_verified i (mark_verified i us) = mark_verified i us
   \<and> (i < length us \<longrightarrow>
        is_verified (mark_verified i us ! i) \<and> same_user (us ! i) (mark_verified i us ! i))
   \<and> (fst (is_member w uid) \<and> fst (is_member w' uid) \<longrightarrow>
        store (start w' uid msg' (store (start w uid msg d))) = store (start w uid msg d)
        \<and> store (verify w' uid b (store (start w uid msg d))) = store (start w uid msg d)
        \<and> store (verify w' uid b (store (verify w uid b' d))) = store (verify w uid b' d))"
  (is "?twice \<and> ?fields \<and> ?handlers")
proof (intro conjI)
  show ?twice
    by (rule mark_verified_twice)
  show ?fields
    by (simp add: mark_verified_def same_user_def)
  show ?handlers
  proof
    assume m: "fst (is_member w uid) \<and> fst (is_member w' uid)"
    obtain i where i: "query_user_first uid (users (store (start w uid msg d))) = Some i"
        "users (store (start w uid msg d)) = mark_verified i (users (store (start w uid msg d)))"
      using query_after_start [of w uid msg d] m by blast
    have s: "store (start w' uid msg' (store (start w uid msg d))) = store (start w uid msg d)"
      using m i start_store [of w' uid msg' "store (start w uid msg d)"]
      by (simp add: start_users)
    have v: "store (verify w' uid b (store (start w uid msg d))) = store (start w uid msg d)"
      using m i verify_store [of w' uid b "store (start w uid msg d)"]
      by (simp add: verify_users)
    have vv: "store (verify w' uid b (store (verify w uid b' d))) = store (verify w uid b' d)"
    proof (cases "query_user_first uid (users d)")
      case None
      then have "store (verify w uid b' d) = d"
        using verify_store [of w uid b' d] by (simp add: verify_users)
      then show ?thesis
        using None verify_store [of w' uid b d] by (simp add: verify_users)
    next
      case (Some j)
      then have u: "users (store (verify w uid b' d)) = mark_verified j (users d)"
        using m by (simp add: verify_users)
      show ?thesis
        using m Some verify_store [of w' uid b "store (verify w uid b' d)"]
        by (simp add: verify_users [of w' uid b] u mark_verified_twice)
    qed
    show "store (start w' uid msg' (store (start w uid msg d))) = store (start w uid msg d)
        \<and> store (verify w' uid b (store (start w uid msg d))) = store (start w uid msg d)
        \<and> store (verify w' uid b (store (verify w uid b' d))) = store (verify w uid b' d)"
      using s v vv by simp
  qed
qed

theorem mark_verified_idempotent_witness:
  "(0::nat) < length (users example_db)
   \<and> mark_verified 0 (mark_verified 0 (users example_db)) =
       [\<lparr>u_id = 1, telegram_id = 7, join_date = 2, is_verified = True\<rparr>]
   \<and> fst (is_member (example_world\<lparr>get_chat_member := \<lambda>_. Inr ''member''\<rparr>) 7)
   \<and> fst (is_member (example_world\<lparr>get_chat_member := \<lambda>_. Inr ''creator'', utcnow := 9\<rparr>) 7)
   \<and> store (start (example_world\<lparr>get_chat_member := \<lambda>_. Inr ''creator'', utcnow := 9\<rparr>) 7 True
        (store (start (example_world\<lparr>get_chat_member := \<lambda>_. Inr ''member''\<rparr>) 7 True example_db)))
       = store (start (example_world\<lparr>get_chat_member := \<lambda>_. Inr ''member''\<rparr>) 7 True example_db)"
  using mark_verified_idempotent [where i = 0 and us = "users example_db"
      and w = "example_world\<lparr>get_chat_member := \<lambda>_. Inr ''member''\<rparr>" and uid = 7
      and w' = "example_world\<lparr>get_chat_member := \<lambda>_. Inr ''creator'', utcnow := 9\<rparr>"
      and d = example_db and msg = True and msg' = True]
  by (simp add: example_db_def is_member_def member_statuses_def mark_verified_def)

subsection \<open>The verified flag only goes up\<close>

lemma verified_preserved_iff:
  "verified_preserved us us' \<longleftrightarrow>
     length us \<le> length us' \<and> (\<forall>i<length us. is_verified (us ! i) \<longrightarrow> is_verified (us' ! i))"
  by (auto simp: verified_preserved_def list_all_length)

lemma verified_preserved_refl: "verified_preserved us us"
  by (simp add: verified_preserved_iff)

lemma verified_preserved_trans:
  "verified_preserved us us' \<Longrightarrow> verified_preserved us' us'' \<Longrightarrow> verified_preserved us us''"
  by (auto simp: verified_preserved_iff)

lemma verified_preserved_mark: "verified_preserved us (mark_verified i us)"
  by (simp add: verified_preserved_iff nth_mark_verified)

lemma verified_preserved_add: "verified_preserved us (add_user now tid us)"
  by (simp add: verified_preserved_iff nth_add_user_old)

lemma handle_update_verified_preserved:
  "verified_preserved (users d) (users (store (handle_update w u d)))"
proof (cases u)
  case (StartCommand uid msg)
  then show ?thesis
    by (simp add: start_users verified_preserved_refl verified_preserved_mark
        verified_preserved_add
        verified_preserved_trans [OF verified_preserved_add verified_preserved_mark]
        split: option.split)
next
  case (VerifyQuery uid b)
  then show ?thesis
    by (simp add: verify_users verified_preserved_refl verified_preserved_mark
        split: option.split)
next
  case (NewEmailQuery uid)
  then show ?thesis
    by (simp add: new_email_users verified_preserved_refl)
next
  case (CheckInboxQuery uid)
  then show ?thesis
    by (simp add: check_inbox_def verified_preserved_refl)
next
  case (DeleteEmailQuery uid)
  then show ?thesis
    by (simp add: delete_email_def verified_preserved_refl)
next
  case (NotifyAllCommand uid args)
  then show ?thesis
    by (simp add: notify_all_store verified_preserved_refl)
qed

lemma run_verified_preserved: "verified_preserved (users d) (users (run steps d))"
proof (induction steps arbitrary: d)
  case Nil
  then show ?case by (simp add: verified_preserved_refl)
next
  case (Cons step steps)
  obtain w u where step: "step = (w, u)"
    by (cases step)
  have "verified_preserved (users d) (users (store (handle_update w u d)))"
    by (rule handle_update_verified_preserved)
  moreover have "verified_preserved (users (store (handle_update w u d)))
      (users (run steps (store (handle_update w u d))))"
    by (rule Cons.IH)
  ultimately show ?case
    unfolding step by (simp add: verified_preserved_trans)
qed

text \<open>After \<^verbatim>\<open>start\<close> or \<^verbatim>\<open>verify\<close> for the user \<open>uid\<close>, a row is verified exactly if it
  was verified before or it is the row of \<open>uid\<close> and the gate said member.\<close>

lemma gate_transition:
  assumes us': "us' = (case query_user_first uid us of
        None \<Rightarrow> if create then (if m then mark_verified (length us) (add_user now uid us)
                                 else add_user now uid us)
                else us
      | Some j \<Rightarrow> if m then mark_verified j us else us)"
    and i: "i < length us'"
  shows "is_verified (us' ! i) \<longleftrightarrow>
     (i < length us \<and> is_verified (us ! i)) \<or> (m \<and> query_user_first uid us' = Some i)"
proof (cases "query_user_first uid us")
  case None
  show ?thesis
  proof (cases create)
    case True
    have q: "query_user_first uid (add_user now uid us) = Some (length us)"
      using None by (rule query_user_first_add_user)
    have n: "add_user now uid us ! length us =
        \<lparr>u_id = next_id (map u_id us), telegram_id = uid, join_date = now, is_verified = False\<rparr>"
      by (rule nth_add_user_new)
    show ?thesis
    proof (cases "i < length us")
      case True
      then show ?thesis
        using us' None \<open>create\<close> q
        by (auto simp: nth_mark_verified nth_add_user_old)
    next
      case False
      then have "i = length us"
        using i us' None \<open>create\<close> by (simp split: if_splits)
      then show ?thesis
        using us' None \<open>create\<close> q n by (simp add: nth_mark_verified)
    qed
  next
    case False
    then show ?thesis
      using us' None i by simp
  qed
next
  case (Some j)
  then have "j < length us"
    using first_index_SomeD [of "\<lambda>u. telegram_id u = uid" us j]
    by (simp add: query_user_first_def)
  then show ?thesis
    using us' Some i by (auto simp: nth_mark_verified)
qed

text \<open>
  Claim C3. The flag \<^verbatim>\<open>is_verified\<close> is monotonic: along any run of the bot, whatever the
  updates and the answers of the outside world, every row stays in the table and a row
  that was verified is verified at the end. And a handler leaves a row verified exactly
  when the row was verified before, or the update was a \<^verbatim>\<open>/start\<close> or a \<^verbatim>\<open>verify\<close> of
  some user, the gate said member for this user, and the row is this user's row: the
  step from unverified to verified happens exactly on a positive answer of the gate for
  that user.
\<close>

theorem verified_monotonic:
  "verified_preserved (users d) (users (run steps d))
   \<and> (\<forall>i < length (users (store (handle_update w u d))).
        is_verified (users (store (handle_update w u d)) ! i) \<longleftrightarrow>
          (i < length (users d) \<and> is_verified (users d ! i))
          \<or> (\<exists>uid. ((\<exists>msg. u = StartCommand uid msg) \<or> (\<exists>b. u = VerifyQuery uid b))
                \<and> fst (is_member w uid)
                \<and> query_user_first uid (users (store (handle_update w u d))) = Some i))"
  (is "?mono \<and> ?exact")
proof
  show ?mono
    by (rule run_verified_preserved)
  show ?exact
  proof (cases u)
    case (StartCommand uid msg)
    have "users (store (start w uid msg d)) =
        (case query_user_first uid (users d) of
           None \<Rightarrow> if True then (if fst (is_member w uid)
                                  then mark_verified (length (users d)) (add_user (utcnow w) uid (users d))
                                  else add_user (utcnow w) uid (users d))
                   else users d
         | Some j \<Rightarrow> if fst (is_member w uid) then mark_verified j (users d) else users d)"
      by (simp add: start_users)
    then show ?thesis
      unfolding StartCommand using gate_transition by auto
  next
    case (VerifyQuery uid b)
    have "users (store (verify w uid b d)) =
        (case query_user_first uid (users d) of
           None \<Rightarrow> if False then (if fst (is_member w uid)
                                  then mark_verified (length (users d)) (add_user (utcnow w) uid (users d))
                                  else add_user (utcnow w) uid (users d))
                   else users d
         | Some j \<Rightarrow> if fst (is_member w uid) then mark_verified j (users d) else users d)"
      by (simp add: verify_users)
    then show ?thesis
      unfolding VerifyQuery using gate_transition by auto
  next
    case (NewEmailQuery uid)
    then show ?thesis
      by (simp add: new_email_users)
  next
    case (CheckInboxQuery uid)
    then show ?thesis
      by (simp add: check_inbox_def)
  next
    case (DeleteEmailQuery uid)
    then show ?thesis
      by (simp add: delete_email_def)
  next
    case (NotifyAllCommand uid args)
    then show ?thesis
      by (simp add: notify_all_store)
  qed
qed

theorem verified_monotonic_witness:
  "is_verified (users \<lparr>users = [\<lparr>u_id = 1, telegram_id = 7, join_date = 2, is_verified = True\<rparr>],
                       emails = []\<rparr> ! 0)
   \<and> \<not> fst (is_member example_world 7)
   \<and> is_verified
        (users (run [(example_world, StartCommand 7 True), (example_world, CheckInboxQuery 7)]
           \<lparr>users = [\<lparr>u_id = 1, telegram_id = 7, join_date = 2, is_verified = True\<rparr>],
            emails = []\<rparr>) ! 0)
   \<and> \<not> is_verified (users example_db ! 0)
   \<and> fst (is_member (example_world\<lparr>get_chat_member := \<lambda>_. Inr ''member''\<rparr>) 7)
   \<and> is_verified
        (users (store (handle_update (example_world\<lparr>get_chat_member := \<lambda>_. Inr ''member''\<rparr>)
           (VerifyQuery 7 True) example_db)) ! 0)"
  using verified_monotonic
    [of "\<lparr>users = [\<lparr>u_id = 1, telegram_id = 7, join_date = 2, is_verified = True\<rparr>], emails = []\<rparr>"
      "[(example_world, StartCommand 7 True), (example_world, CheckInboxQuery 7)]"
      example_world "CheckInboxQuery 7"]
    verified_monotonic
    [of example_db "[]" "example_world\<lparr>get_chat_member := \<lambda>_. Inr ''member''\<rparr>"
      "VerifyQuery 7 True"]
  by (simp add: verified_preserved_def example_db_def example_world_def is_member_def
      member_statuses_def verify_users start_users check_inbox_def query_user_first_def
      mark_verified_def)

subsection \<open>Nothing is ever deleted\<close>

lemma nothing_deleted_iff:
  "nothing_deleted d d' \<longleftrightarrow>
     length (users d) \<le> length (users d')
     \<and> (\<forall>i<length (users d). same_user (users d ! i) (users d' ! i))
     \<and> prefix (emails d) (emails d')"
  by (auto simp: nothing_deleted_def list_all_length)

lemma nothing_deleted_refl: "nothing_deleted d d"
  by (simp add: nothing_deleted_iff same_user_def)

lemma nothing_deleted_trans:
  "nothing_deleted d d' \<Longrightarrow> nothing_deleted d' d'' \<Longrightarrow> nothing_deleted d d''"
  unfolding nothing_deleted_iff
  by (auto simp: same_user_def intro: prefix_order.trans)

lemma same_user_refl: "same_user u u"
  by (simp add: same_user_def)

lemma same_user_mark: "i < length us \<Longrightarrow> same_user (us ! i) (mark_verified j us ! i)"
  by (simp add: same_user_def nth_mark_verified)

lemma same_user_add: "i < length us \<Longrightarrow> same_user (us ! i) (add_user now tid us ! i)"
  by (simp add: same_user_def nth_add_user_old)

lemma same_user_add_mark:
  "i < length us \<Longrightarrow> same_user (us ! i) (mark_verified j (add_user now tid us) ! i)"
  by (simp add: same_user_def nth_mark_verified nth_add_user_old)

lemma handle_update_nothing_deleted: "nothing_deleted d (store (handle_update w u d))"
proof (cases u)
  case (StartCommand uid msg)
  then show ?thesis
    by (simp add: nothing_deleted_iff start_users start_emails same_user_mark same_user_add
        same_user_add_mark same_user_refl split: option.split)
next
  case (VerifyQuery uid b)
  then show ?thesis
    by (simp add: nothing_deleted_iff verify_users verify_emails same_user_mark
        same_user_refl split: option.split)
next
  case (NewEmailQuery uid)
  then show ?thesis
    by (simp add: nothing_deleted_iff new_email_users new_email_emails same_user_def)
next
  case (CheckInboxQuery uid)
  then show ?thesis
    by (simp add: check_inbox_def nothing_deleted_refl)
next
  case (DeleteEmailQuery uid)
  then show ?thesis
    by (simp add: delete_email_def nothing_deleted_refl)
next
  case (NotifyAllCommand uid args)
  then show ?thesis
    by (simp add: notify_all_store nothing_deleted_refl)
qed

text \<open>
  Claim C10. \<^verbatim>\<open>check_inbox\<close> and \<^verbatim>\<open>delete_email\<close> return the database they were given,
  for every user and every state. And no handler deletes a row: along any run of the bot
  every user is still in \<^verbatim>\<open>users\<close> with the id, the user id and the join date it had,
  and the mailboxes of the beginning are still the first rows of \<^verbatim>\<open>emails\<close>, unchanged.
\<close>

theorem stubs_change_nothing:
  "store (check_inbox d) = d \<and> store (delete_email d) = d
   \<and> store (handle_update w (CheckInboxQuery uid) d) = d
   \<and> store (handle_update w (DeleteEmailQuery uid) d) = d
   \<and> nothing_deleted d (run steps d)"
proof -
  have "nothing_deleted d (run steps d)"
  proof (induction steps arbitrary: d)
    case Nil
    then show ?case by (simp add: nothing_deleted_refl)
  next
    case (Cons step steps)
    obtain w u where step: "step = (w, u)"
      by (cases step)
    have "nothing_deleted d (store (handle_update w u d))"
      by (rule handle_update_nothing_deleted)
    moreover have "nothing_deleted (store (handle_update w u d))
        (run steps (store (handle_update w u d)))"
      by (rule Cons.IH)
    ultimately show ?case
      unfolding step by (simp add: nothing_deleted_trans)
  qed
  then show ?thesis
    by (simp add: check_inbox_def delete_email_def)
qed

subsection \<open>What gates the mailbox request\<close>

lemma send_all_events:
  "e \<in> set (snd (send_all w text us c)) \<Longrightarrow>
   (\<exists>a b. e = SendMessage a b) \<or> (\<exists>a b. e = LogSendFailed a b)"
  by (induction us arbitrary: c) (auto simp: case_prod_beta split: option.splits)

lemma notify_all_no_menu: "\<not> menu_shown (trace (notify_all w uid args d))"
  using send_all_events [of _ w "announcement (join_space args)" "filter is_verified (users d)" 0]
  by (auto simp: notify_all_def Let_def menu_shown_def show_main_menu_def main_menu_keyboard_def case_prod_beta)

lemma new_email_no_menu: "\<not> menu_shown (trace (new_email w uid d))"
  by (simp add: new_email_def Let_def menu_shown_def show_main_menu_def main_menu_keyboard_def
      split: sum.split list.split)

lemma start_menu:
  "menu_shown (trace (start w uid msg d)) \<Longrightarrow>
   fst (is_member w uid)
   \<and> (\<exists>i. query_user_first uid (users (store (start w uid msg d))) = Some i
          \<and> is_verified (users (store (start w uid msg d)) ! i))"
proof -
  assume shown: "menu_shown (trace (start w uid msg d))"
  have m: "fst (is_member w uid)"
  proof (rule ccontr)
    assume "\<not> fst (is_member w uid)"
    then have "\<not> menu_shown (trace (start w uid msg d))"
      using is_member_trace [of w uid]
      by (auto simp: start_trace join_prompt_def menu_shown_def show_main_menu_def main_menu_keyboard_def
          split: option.split)
    with shown show False by simp
  qed
  obtain i where i: "query_user_first uid (users (store (start w uid msg d))) = Some i"
      "users (store (start w uid msg d)) = mark_verified i (users (store (start w uid msg d)))"
    using query_after_start [OF m, of msg d] by blast
  have "i < length (users (store (start w uid msg d)))"
    using i(1) first_index_SomeD [of "\<lambda>u. telegram_id u = uid" "users (store (start w uid msg d))" i]
    by (simp add: query_user_first_def)
  then have "is_verified (mark_verified i (users (store (start w uid msg d))) ! i)"
    by (simp add: nth_mark_verified)
  then have "is_verified (users (store (start w uid msg d)) ! i)"
    using i(2) by simp
  with m i(1) show ?thesis by blast
qed

lemma verify_menu:
  "menu_shown (trace (verify w uid b d)) \<Longrightarrow>
   fst (is_member w uid)
   \<and> (\<exists>i. query_user_first uid (users (store (verify w uid b d))) = Some i
          \<and> is_verified (users (store (verify w uid b d)) ! i))"
proof -
  assume shown: "menu_shown (trace (verify w uid b d))"
  have m: "fst (is_member w uid)"
  proof (rule ccontr)
    assume "\<not> fst (is_member w uid)"
    then have "\<not> menu_shown (trace (verify w uid b d))"
      using is_member_trace [of w uid]
      by (auto simp: verify_trace menu_shown_def show_main_menu_def main_menu_keyboard_def)
    with shown show False by simp
  qed
  have "query_user_first uid (users d) \<noteq> None"
  proof
    assume "query_user_first uid (users d) = None"
    then have "\<not> menu_shown (trace (verify w uid b d))"
      using is_member_trace [of w uid] m
      by (auto simp: verify_trace menu_shown_def show_main_menu_def main_menu_keyboard_def)
    with shown show False by simp
  qed
  then obtain i where i: "query_user_first uid (users d) = Some i"
    by blast
  then have "i < length (users d)"
    using first_index_SomeD [of "\<lambda>u. telegram_id u = uid" "users d" i]
    by (simp add: query_user_first_def)
  then show ?thesis
    using m i by (simp add: verify_users nth_mark_verified)
qed

text \<open>
  \<^verbatim>\<open>new_email\<close> does not reject an unverified user. In the scenario, user 7 has a row
  with \<^verbatim>\<open>is_verified = False\<close>; the handler calls the provider, stores the mailbox and
  shows the address.
\<close>

theorem new_email_unverified_counterexample:
  "query_user_first 7 (users example_db) = Some 0
   \<and> \<not> is_verified (users example_db ! 0)
   \<and> raised (new_email example_world 7 example_db) = None
   \<and> emails (store (new_email example_world 7 example_db)) =
       [\<lparr>e_id = 1, user_id = 7, email = ''abcdefghij@example.com'',
         password = ''klmnopqrstuvwxyz'', created_at = 5\<rparr>]
   \<and> trace (new_email example_world 7 example_db) =
       [Answer, HttpGet ''https://api.mail.tm/domains'',
        HttpPost ''https://api.mail.tm/accounts'' ''abcdefghij@example.com'' ''klmnopqrstuvwxyz'',
        SessionOpen, SessionAdd, SessionCommit, SessionClose,
        EditMessageText ''Your new email: `abcdefghij@example.com`'' None (Some ''Markdown'')]"
proof -
  have L: "generate_random_string (random_draws example_world) 0 10 = ''abcdefghij''"
    by code_simp
  have S: "generate_random_string (random_draws example_world) 10 16 = ''klmnopqrstuvwxyz''"
    by code_simp
  have w: "get_domains example_world = Inr [''example.com'', ''other.org'']"
    "post_accounts example_world = (\<lambda>_ _. Inr 201)" "utcnow example_world = 5"
    by (simp_all add: example_world_def)
  have d: "emails example_db = []"
    "users example_db = [\<lparr>u_id = 1, telegram_id = 7, join_date = 2, is_verified = False\<rparr>]"
    by (simp_all add: example_db_def)
  show ?thesis
    by (simp add: new_email_def Let_def L S w d add_email_def next_id_def MAIL_API_def
        query_user_first_def)
qed

text \<open>
  Claim C1, as the code has it. \<^verbatim>\<open>new_email\<close> never reads the table \<^verbatim>\<open>users\<close>: the
  exception it raises, the calls it makes and the mailboxes it stores are the same
  whatever rows the table holds, so the verified flag of the user does not matter to it.
  What the state gates is the menu: a handler sends the main menu (the message that
  carries the button of \<^verbatim>\<open>new_email\<close>) only for a \<^verbatim>\<open>/start\<close> or a \<^verbatim>\<open>verify\<close> of a user
  for whom the gate said member, and then this user has a row and the row is verified.
\<close>

theorem new_email_not_gated_menu_gated:
  "new_email w uid (d\<lparr>users := us\<rparr>) =
     (new_email w uid d)\<lparr>store := (store (new_email w uid d))\<lparr>users := us\<rparr>\<rparr>
   \<and> (menu_shown (trace (handle_update w u d)) \<longrightarrow>
        (\<exists>v i. ((\<exists>msg. u = StartCommand v msg) \<or> (\<exists>b. u = VerifyQuery v b))
           \<and> fst (is_member w v)
           \<and> query_user_first v (users (store (handle_update w u d))) = Some i
           \<and> is_verified (users (store (handle_update w u d)) ! i)))"
  (is "?free \<and> ?gated")
proof
  show ?free
    by (simp add: new_email_def Let_def split: sum.split list.split)
  show ?gated
  proof (cases u)
    case (StartCommand v msg)
    then show ?thesis
      using start_menu [of w v msg d] by auto
  next
    case (VerifyQuery v b)
    then show ?thesis
      using verify_menu [of w v b d] by auto
  next
    case (NewEmailQuery v)
    then show ?thesis
      by (simp add: new_email_no_menu)
  next
    case (CheckInboxQuery v)
    then show ?thesis
      by (simp add: check_inbox_def menu_shown_def show_main_menu_def main_menu_keyboard_def)
  next
    case (DeleteEmailQuery v)
    then show ?thesis
      by (simp add: delete_email_def menu_shown_def show_main_menu_def main_menu_keyboard_def)
  next
    case (NotifyAllCommand v args)
    then show ?thesis
      by (simp add: notify_all_no_menu)
  qed
qed

theorem new_email_not_gated_menu_gated_witness:
  "menu_shown (trace (handle_update (example_world\<lparr>get_chat_member := \<lambda>_. Inr ''member''\<rparr>)
       (StartCommand 7 True) example_db))
   \<and> fst (is_member (example_world\<lparr>get_chat_member := \<lambda>_. Inr ''member''\<rparr>) 7)
   \<and> is_verified (users (store (handle_update
        (example_world\<lparr>get_chat_member := \<lambda>_. Inr ''member''\<rparr>) (StartCommand 7 True) example_db)) ! 0)"
proof -
  have shown: "menu_shown (trace (handle_update
      (example_world\<lparr>get_chat_member := \<lambda>_. Inr ''member''\<rparr>) (StartCommand 7 True) example_db))"
    by (simp add: start_trace menu_shown_def show_main_menu_def main_menu_keyboard_def is_member_def member_statuses_def)
  have q: "query_user_first 7 (users (store (handle_update
      (example_world\<lparr>get_chat_member := \<lambda>_. Inr ''member''\<rparr>) (StartCommand 7 True) example_db))) = Some 0"
    by (simp add: start_users example_db_def query_user_first_def mark_verified_def)
  show ?thesis
    using new_email_not_gated_menu_gated
      [where w = "example_world\<lparr>get_chat_member := \<lambda>_. Inr ''member''\<rparr>"
        and u = "StartCommand 7 True" and d = example_db]
      shown q
    by auto
qed

end
